theory Spec2Isabelle
  imports Main "HOL-Library.Sublist" "HOL-Library.Multiset" "HOL-Library.AList"
begin

section \<open>Errors\<close>

text \<open>
  The sentinel errors of the packages are constructors of their own; an error made on the
  spot by \<^verbatim>\<open>errors.New\<close> or \<^verbatim>\<open>fmt.Errorf\<close> carries its message.
\<close>

datatype error =
    ErrVersionSyntax
  | ErrReleasesFileNotDownloaded
  | Err string

section \<open>Versions (env/version.go)\<close>

datatype VersionType = Stable | Beta | RC | Head

text \<open>
  The fields are Go \<^verbatim>\<open>int\<close>s. The code only compares and prints them, so they are
  modelled as integers; \<open>Atoi\<close> below is the only producer and keeps them in the 64-bit
  range.
\<close>

record Version =
  Type :: VersionType
  Major :: int
  Minor :: int
  Patch :: int
  Release :: int

definition headVersion :: string where
  "headVersion = ''go-head''"

subsection \<open>Library functions the parser calls\<close>

text \<open>The ten decimal digits with their values (the class \<^verbatim>\<open>[0-9]\<close>).\<close>

definition decimal_digits :: "(char \<times> nat) list" where
  "decimal_digits = zip ''0123456789'' [0, 1, 2, 3, 4, 5, 6, 7, 8, 9]"

definition digit_val :: "char \<Rightarrow> nat option" where
  "digit_val c = map_of decimal_digits c"

definition is_digit :: "char \<Rightarrow> bool" where
  "is_digit c = (digit_val c \<noteq> None)"

text \<open>\<^verbatim>\<open>strings.TrimPrefix\<close>.\<close>

definition TrimPrefix :: "string \<Rightarrow> string \<Rightarrow> string" where
  "TrimPrefix s p = (if prefix p s then drop (length p) s else s)"

text \<open>
  \<^verbatim>\<open>strconv.Atoi\<close>: an optional sign, then at least one decimal digit and nothing
  else; a value outside the 64-bit range of \<^verbatim>\<open>int\<close> is an error.
\<close>

fun digits_val :: "int \<Rightarrow> string \<Rightarrow> int option" where
  "digits_val acc [] = Some acc"
| "digits_val acc (c # cs) =
     (case digit_val c of None \<Rightarrow> None | Some d \<Rightarrow> digits_val (acc * 10 + int d) cs)"

definition Atoi :: "string \<Rightarrow> int option" where
  "Atoi s =
     (let neg = (s \<noteq> [] \<and> hd s = CHR ''-'');
          ds = (if s \<noteq> [] \<and> (hd s = CHR ''-'' \<or> hd s = CHR ''+'') then tl s else s)
      in if ds = [] then None
         else case digits_val 0 ds of
                None \<Rightarrow> None
              | Some n \<Rightarrow>
                  if neg then (if n \<le> 2 ^ 63 then Some (- n) else None)
                  else (if n < 2 ^ 63 then Some n else None))"

text \<open>\<^verbatim>\<open>fmt.Sprintf("%d", n)\<close>: the decimal numeral of an integer.\<close>

definition digit_char :: "nat \<Rightarrow> char" where
  "digit_char d = ''0123456789'' ! d"

fun nat_dec :: "nat \<Rightarrow> string" where
  "nat_dec n = (if n < 10 then [digit_char n] else nat_dec (n div 10) @ [digit_char (n mod 10)])"

declare nat_dec.simps [simp del]

definition fmt_d :: "int \<Rightarrow> string" where
  "fmt_d i = (if i < 0 then CHR ''-'' # nat_dec (nat (- i)) else nat_dec (nat i))"

subsection \<open>The version pattern\<close>

text \<open>
  \<^verbatim>\<open>versionRegexp = ^(1)\.([0-9]+)((\.([0-9]+))|((beta|rc)([0-9]+)))?$\<close>
  and its \<^verbatim>\<open>FindStringSubmatch\<close>: \<open>None\<close> is Go's \<^verbatim>\<open>nil\<close>, otherwise the list
  holds the whole match and the eight groups, an unmatched group being the empty string.
  The pattern is anchored at both ends and each run of digits is followed by a character
  that is no digit, so the greedy split below is its only match.
\<close>

definition digits1 :: "string \<Rightarrow> bool" where
  "digits1 s = (s \<noteq> [] \<and> list_all is_digit s)"

definition FindStringSubmatch :: "string \<Rightarrow> string list option" where
  "FindStringSubmatch s =
     (if \<not> prefix ''1.'' s then None
      else
        let r = drop 2 s; mi = takeWhile is_digit r; t = dropWhile is_digit r
        in if mi = [] then None
           else if t = [] then Some [s, ''1'', mi, [], [], [], [], [], []]
           else if prefix ''.'' t \<and> digits1 (drop 1 t)
             then Some [s, ''1'', mi, t, t, drop 1 t, [], [], []]
           else if prefix ''beta'' t \<and> digits1 (drop 4 t)
             then Some [s, ''1'', mi, t, [], [], t, ''beta'', drop 4 t]
           else if prefix ''rc'' t \<and> digits1 (drop 2 t)
             then Some [s, ''1'', mi, t, [], [], t, ''rc'', drop 2 t]
           else None)"

subsection \<open>ParseVersion, String, CompareVersion\<close>

definition ParseVersion :: "string \<Rightarrow> error + Version" where
  "ParseVersion s0 =
     (if s0 = headVersion
      then Inr \<lparr>Type = Head, Major = 0, Minor = 0, Patch = 0, Release = 0\<rparr>
      else
        let s = TrimPrefix s0 ''go'' in
        case FindStringSubmatch s of
          None \<Rightarrow> Inl ErrVersionSyntax
        | Some matches \<Rightarrow>
            (case Atoi (matches ! 1) of
               None \<Rightarrow> Inl ErrVersionSyntax
             | Some major \<Rightarrow>
                 (case Atoi (matches ! 2) of
                    None \<Rightarrow> Inl ErrVersionSyntax
                  | Some minor \<Rightarrow>
                      if matches ! 3 = [] then
                        Inr \<lparr>Type = Stable, Major = major, Minor = minor,
                             Patch = 0, Release = 0\<rparr>
                      else if matches ! 5 \<noteq> [] then
                        (case Atoi (matches ! 5) of
                           None \<Rightarrow> Inl ErrVersionSyntax
                         | Some patch \<Rightarrow>
                             Inr \<lparr>Type = Stable, Major = major, Minor = minor,
                                  Patch = patch, Release = 0\<rparr>)
                      else
                        (let tp = (if matches ! 7 = ''beta'' then Beta else RC) in
                         case Atoi (matches ! 8) of
                           None \<Rightarrow> Inl ErrVersionSyntax
                         | Some rn \<Rightarrow>
                             Inr \<lparr>Type = tp, Major = major, Minor = minor,
                                  Patch = 0, Release = rn\<rparr>))))"

definition String :: "Version \<Rightarrow> string" where
  "String v =
     (case Type v of
        Stable \<Rightarrow>
          if Patch v > 0
          then fmt_d (Major v) @ ''.'' @ fmt_d (Minor v) @ ''.'' @ fmt_d (Patch v)
          else fmt_d (Major v) @ ''.'' @ fmt_d (Minor v)
      | Beta \<Rightarrow> fmt_d (Major v) @ ''.'' @ fmt_d (Minor v) @ ''beta'' @ fmt_d (Release v)
      | RC \<Rightarrow> fmt_d (Major v) @ ''.'' @ fmt_d (Minor v) @ ''rc'' @ fmt_d (Release v)
      | Head \<Rightarrow> headVersion)"

definition compareInt :: "int \<Rightarrow> int \<Rightarrow> int" where
  "compareInt x y = (if x > y then 1 else if x < y then - 1 else 0)"

definition CompareVersion :: "Version \<Rightarrow> Version \<Rightarrow> int" where
  "CompareVersion x y =
     (if Type x = Head \<and> Type y = Head then 0
      else if Type x = Head then 1
      else if Type y = Head then - 1
      else if Major x \<noteq> Major y then compareInt (Major x) (Major y)
      else if Minor x \<noteq> Minor y then compareInt (Minor x) (Minor y)
      else if Type x \<noteq> Type y \<and> Type x = Stable then 1
      else if Type x \<noteq> Type y \<and> Type x = Beta then - 1
      else if Type x \<noteq> Type y \<and> Type y = Stable then - 1
      else if Type x \<noteq> Type y \<and> Type y = Beta then 1
      else if Type x = Stable then compareInt (Patch x) (Patch y)
      else compareInt (Release x) (Release y))"

definition EqualVersion :: "Version \<Rightarrow> Version \<Rightarrow> bool" where
  "EqualVersion x y = (CompareVersion x y = 0)"

text \<open>
  The values the parser can return: the head marker with every number zero, or major 1
  with a minor, and either a patch (stable) or a release number (beta, rc), each within
  the range of a 64-bit \<^verbatim>\<open>int\<close>.
\<close>

definition parsed_version :: "Version \<Rightarrow> bool" where
  "parsed_version v =
     (if Type v = Head then Major v = 0 \<and> Minor v = 0 \<and> Patch v = 0 \<and> Release v = 0
      else Major v = 1 \<and> 0 \<le> Minor v \<and> Minor v < 2 ^ 63 \<and>
           (if Type v = Stable then 0 \<le> Patch v \<and> Patch v < 2 ^ 63 \<and> Release v = 0
            else Patch v = 0 \<and> 0 \<le> Release v \<and> Release v < 2 ^ 63))"

text \<open>
  The ordering as the specification words it (section 4.1, Compare): head above all,
  then major, then minor, then the stability rank Stable > ReleaseCandidate > Beta, then
  the number of the kind.
\<close>

definition stability_rank :: "VersionType \<Rightarrow> int" where
  "stability_rank t = (case t of Beta \<Rightarrow> 0 | RC \<Rightarrow> 1 | Stable \<Rightarrow> 2 | Head \<Rightarrow> 3)"

definition Compare_spec :: "Version \<Rightarrow> Version \<Rightarrow> int" where
  "Compare_spec x y =
     (if Type x = Head \<or> Type y = Head
        then compareInt (stability_rank (Type x)) (stability_rank (Type y))
      else if Major x \<noteq> Major y then compareInt (Major x) (Major y)
      else if Minor x \<noteq> Minor y then compareInt (Minor x) (Minor y)
      else if Type x \<noteq> Type y
        then compareInt (stability_rank (Type x)) (stability_rank (Type y))
      else if Type x = Stable then compareInt (Patch x) (Patch y)
      else compareInt (Release x) (Release y))"

text \<open>
  The strings of the parser's test table that the specification lists as canonical.
\<close>

definition canonical_strings :: "string list" where
  "canonical_strings =
     [''1.16'', ''1.15.10'', ''1.16beta3'', ''1.15rc10'', ''1.14.1beta4'', ''1.13.14rc15'',
      ''go-head'']"

section \<open>The release catalog (env/releases.go)\<close>

text \<open>
  The records of the listing and of the catalog. Their fields carry a prefix, since
  Isabelle shares one name space among the fields of all records: \<open>f_\<close> for
  \<^verbatim>\<open>remoteFile\<close>, \<open>rr_\<close> for \<^verbatim>\<open>remoteRelease\<close> and \<open>r_\<close> for \<^verbatim>\<open>Release\<close>.
  Sizes are \<^verbatim>\<open>int64\<close>; the code only copies them.
\<close>

record remoteFile =
  f_Filename :: string
  f_OS :: string
  f_Arch :: string
  f_Version :: string
  f_ChecksumSHA256 :: string
  f_Size :: int
  f_Kind :: string

record remoteRelease =
  rr_Version :: string
  rr_Stable :: bool
  rr_Files :: "remoteFile list"

record Release =
  r_Version :: Version
  r_Stable :: bool
  r_Filename :: string
  r_ChecksumSHA256 :: string
  r_Size :: int

text \<open>The constants \<^verbatim>\<open>runtime.GOOS\<close> and \<^verbatim>\<open>runtime.GOARCH\<close> of the running target.\<close>

record runtime =
  GOOS :: string
  GOARCH :: string

definition targetRelease :: "runtime \<Rightarrow> remoteFile \<Rightarrow> bool" where
  "targetRelease rt f =
     (if f_OS f \<noteq> GOOS rt \<or> f_Kind f \<noteq> ''archive'' then False
      else
        let arch = (if GOARCH rt = ''arm'' then ''armv6l'' else GOARCH rt)
        in if f_Arch f \<noteq> arch then False else True)"

text \<open>
  \<^verbatim>\<open>sort.Slice(xs, less)\<close>, as insertion from the right. Go's \<^verbatim>\<open>sort.Slice\<close>
  promises a sorted permutation and no more (it is not stable); the properties below use
  only that.
\<close>

fun insert_less :: "('a \<Rightarrow> 'a \<Rightarrow> bool) \<Rightarrow> 'a \<Rightarrow> 'a list \<Rightarrow> 'a list" where
  "insert_less lt x [] = [x]"
| "insert_less lt x (y # ys) =
     (if lt y x then y # insert_less lt x ys else x # y # ys)"

definition sort_Slice :: "('a \<Rightarrow> 'a \<Rightarrow> bool) \<Rightarrow> 'a list \<Rightarrow> 'a list" where
  "sort_Slice lt xs = foldr (insert_less lt) xs []"

definition release_less :: "Release \<Rightarrow> Release \<Rightarrow> bool" where
  "release_less a b = (CompareVersion (r_Version a) (r_Version b) < 0)"

text \<open>
  The two loops of \<^verbatim>\<open>convertReleases\<close>: \<open>rls\<close> is the slice built so far, and the first
  version text that does not parse ends both loops with its error.
\<close>

fun convertFiles :: "runtime \<Rightarrow> remoteRelease \<Rightarrow> remoteFile list \<Rightarrow> Release list
    \<Rightarrow> error + Release list" where
  "convertFiles rt r [] rls = Inr rls"
| "convertFiles rt r (f # fs) rls =
     (if \<not> targetRelease rt f then convertFiles rt r fs rls
      else
        case ParseVersion (TrimPrefix (rr_Version r) ''go'') of
          Inl err \<Rightarrow> Inl err
        | Inr version \<Rightarrow>
            convertFiles rt r fs
              (rls @ [\<lparr>r_Version = version, r_Stable = rr_Stable r,
                        r_Filename = f_Filename f,
                        r_ChecksumSHA256 = f_ChecksumSHA256 f,
                        r_Size = f_Size f\<rparr>]))"

fun convertLoop :: "runtime \<Rightarrow> remoteRelease list \<Rightarrow> Release list \<Rightarrow> error + Release list" where
  "convertLoop rt [] rls = Inr rls"
| "convertLoop rt (r # rs) rls =
     (case convertFiles rt r (rr_Files r) rls of
        Inl err \<Rightarrow> Inl err
      | Inr rls' \<Rightarrow> convertLoop rt rs rls')"

definition convertReleases :: "runtime \<Rightarrow> remoteRelease list \<Rightarrow> error + Release list" where
  "convertReleases rt releases =
     (case convertLoop rt releases [] of
        Inl err \<Rightarrow> Inl err
      | Inr rls \<Rightarrow> Inr (sort_Slice release_less rls))"

text \<open>
  For stating what the conversion keeps: the files of the listing that match the target,
  each with its record, in the order of the listing, and the catalog entry one of them
  gives when the record's version text parses.
\<close>

definition kept_files :: "runtime \<Rightarrow> remoteRelease list \<Rightarrow> (remoteRelease \<times> remoteFile) list" where
  "kept_files rt rs =
     concat (map (\<lambda>r. map (Pair r) (filter (targetRelease rt) (rr_Files r))) rs)"

definition convert_one :: "remoteRelease \<Rightarrow> remoteFile \<Rightarrow> Release option" where
  "convert_one r f =
     (case ParseVersion (TrimPrefix (rr_Version r) ''go'') of
        Inl err \<Rightarrow> None
      | Inr version \<Rightarrow>
          Some \<lparr>r_Version = version, r_Stable = rr_Stable r, r_Filename = f_Filename f,
                r_ChecksumSHA256 = f_ChecksumSHA256 f, r_Size = f_Size f\<rparr>)"

subsection \<open>The environment and the outside world\<close>

text \<open>
  \<open>releases\<close> is the field \<^verbatim>\<open>env.releases\<close>. A Go slice that was never appended to is
  \<^verbatim>\<open>nil\<close>, and \<^verbatim>\<open>convertReleases\<close> is the only producer, so the empty list stands
  for \<^verbatim>\<open>nil\<close>: a catalog that was loaded and is empty cannot be told from one that was
  never loaded, in the code as in the model.

  The file \<^verbatim>\<open>downloads.json\<close> under the configuration directory is what
  \<^verbatim>\<open>os.Stat\<close>, \<^verbatim>\<open>os.Open\<close> and the JSON decoder make of it. Every access to the file
  and to the network is logged, so that a property can say which accesses an operation
  makes.
\<close>

datatype cache_file =
    NoFile
  | NotOpenable string
  | BadJSON string
  | Listing "remoteRelease list"

datatype event =
    StatFile string
  | OpenFile string
  | WriteFile string
  | HttpGet string

text \<open>
  The rest of the world is the file system the installation works on: the directories
  and regular files that exist (as lists of paths, read as sets), the symbolic links
  with their targets, and \<open>faults\<close>, which says which system calls fail for reasons
  outside the model (permissions, a full disk, the network) and with which message.
\<close>

datatype fs_op =
    OpRemove | OpSymlink | OpRemoveAll | OpMkdir | OpMkdirAll | OpDownload

record world =
  cache :: cache_file
  trace :: "event list"
  dirs :: "string list"
  files :: "string list"
  links :: "string \<rightharpoonup> string"
  faults :: "fs_op \<Rightarrow> string option"

text \<open>
  The struct \<^verbatim>\<open>Env\<close> (goenv/env.go). The map \<^verbatim>\<open>installedVersions\<close> is an
  association list with distinct keys, so that its values can be listed; Go lists them
  in no particular order and the code sorts them at once.
\<close>

record Env =
  envRoot :: string
  verLinkName :: string
  confDir :: string
  cacheDir :: string
  installedVersions :: "(string \<times> Version) list"
  releases :: "Release list"

definition downloadListURL :: string where
  "downloadListURL = ''https://golang.org/dl/?mode=json&include=all''"

definition downloadListFileName :: string where
  "downloadListFileName = ''downloads.json''"

text \<open>\<^verbatim>\<open>filepath.Join\<close> of a clean directory and a file name.\<close>

definition filepath_Join :: "string \<Rightarrow> string \<Rightarrow> string" where
  "filepath_Join dir name =
     (if dir = [] then name
      else if last dir = CHR ''/'' then dir @ name
      else dir @ ''/'' @ name)"

definition log_event :: "event \<Rightarrow> world \<Rightarrow> world" where
  "log_event e w = w\<lparr>trace := trace w @ [e]\<rparr>"

definition loadReleases :: "runtime \<Rightarrow> world \<Rightarrow> Env \<Rightarrow> (error + unit) \<times> world \<times> Env" where
  "loadReleases rt w env =
     (let name = filepath_Join (confDir env) downloadListFileName;
          w1 = log_event (StatFile name) w
      in case cache w of
           NoFile \<Rightarrow> (Inl ErrReleasesFileNotDownloaded, w1, env)
         | NotOpenable msg \<Rightarrow>
             (Inl (Err (''failed to open releases file: '' @ msg)),
              log_event (OpenFile name) w1, env)
         | BadJSON msg \<Rightarrow>
             (Inl (Err (''failed to decode JSON: '' @ msg)),
              log_event (OpenFile name) w1, env)
         | Listing rs \<Rightarrow>
             (case convertReleases rt rs of
                Inl err \<Rightarrow> (Inl err, log_event (OpenFile name) w1, env)
              | Inr rls \<Rightarrow>
                  (Inr (), log_event (OpenFile name) w1, env\<lparr>releases := rls\<rparr>)))"

text \<open>
  What the listing endpoint answers to \<^verbatim>\<open>UpdateDownloadList\<close>, and what becomes of
  writing the cache file afterwards.
\<close>

datatype list_response =
    GetFailed string
  | BadStatus string
  | BadContentType string
  | OtherContentType string
  | BodyBadJSON string
  | BodyListing "remoteRelease list"

datatype write_outcome =
    MkdirFailed string
  | CreateFailed string
  | EncodeFailed string
  | Written

definition UpdateDownloadList ::
    "runtime \<Rightarrow> list_response \<Rightarrow> write_outcome \<Rightarrow> world \<Rightarrow> Env
      \<Rightarrow> (error + unit) \<times> world \<times> Env" where
  "UpdateDownloadList rt resp wr w env =
     (let w1 = log_event (HttpGet downloadListURL) w;
          name = filepath_Join (confDir env) downloadListFileName
      in case resp of
           GetFailed msg \<Rightarrow> (Inl (Err (''failed to get download list: '' @ msg)), w1, env)
         | BadStatus st \<Rightarrow> (Inl (Err (''failed to get download list: '' @ st)), w1, env)
         | BadContentType msg \<Rightarrow>
             (Inl (Err (''failed to parse Content-Type: '' @ msg)), w1, env)
         | OtherContentType mt \<Rightarrow>
             (Inl (Err (''the server responds unexpected Content-Type: '' @ mt)), w1, env)
         | BodyBadJSON msg \<Rightarrow> (Inl (Err (''failed to decode JSON: '' @ msg)), w1, env)
         | BodyListing rs \<Rightarrow>
             (case convertReleases rt rs of
                Inl err \<Rightarrow> (Inl err, w1, env)
              | Inr rls \<Rightarrow>
                  (let env1 = env\<lparr>releases := rls\<rparr> in
                   case wr of
                     MkdirFailed msg \<Rightarrow>
                       (Inl (Err (''failed to create config directory: '' @ msg)), w1, env1)
                   | CreateFailed msg \<Rightarrow>
                       (Inl (Err (''failed to create download list file: '' @ msg)), w1, env1)
                   | EncodeFailed msg \<Rightarrow>
                       (Inl (Err (''failed to encode JSON: '' @ msg)),
                        (log_event (WriteFile name) w1)\<lparr>cache := BadJSON msg\<rparr>, env1)
                   | Written \<Rightarrow>
                       (Inr (), (log_event (WriteFile name) w1)\<lparr>cache := Listing rs\<rparr>,
                        env1))))"

subsection \<open>Selecting recent releases\<close>

text \<open>
  \<^verbatim>\<open>selectRecentReleases\<close> is an iterator; its only consumer, \<^verbatim>\<open>slices.Collect\<close>, never
  stops it, so every \<^verbatim>\<open>yield\<close> appends to the collected slice. The two loops walk the
  catalog backwards (\<^verbatim>\<open>slices.Backward\<close>), here over the reversed list. \<open>latest\<close> is the
  pointer of the code, \<open>None\<close> for \<^verbatim>\<open>nil\<close>; the counters (\<open>cnt\<close> is \<^verbatim>\<open>count\<close>) are Go \<^verbatim>\<open>int\<close>s, which no
  catalog is long enough to wrap.
\<close>

definition line_of :: "Release \<Rightarrow> Version" where
  "line_of r = \<lparr>Type = Stable, Major = Major (r_Version r), Minor = Minor (r_Version r),
                Patch = 0, Release = 0\<rparr>"

fun unstable_loop :: "Release list \<Rightarrow> Version option \<Rightarrow> Release list" where
  "unstable_loop [] latest = []"
| "unstable_loop (r # rs) latest =
     (if r_Stable r then []
      else
        let latest' = (case latest of None \<Rightarrow> line_of r | Some l \<Rightarrow> l)
        in if Major (r_Version r) \<noteq> Major latest' \<or> Minor (r_Version r) \<noteq> Minor latest'
           then []
           else r # unstable_loop rs (Some latest'))"

fun stable_loop :: "Release list \<Rightarrow> Version option \<Rightarrow> int \<Rightarrow> int \<Rightarrow> Release list" where
  "stable_loop [] latest n cnt = []"
| "stable_loop (r # rs) latest n cnt =
     (if \<not> r_Stable r then stable_loop rs latest n cnt
      else if (case latest of
                 None \<Rightarrow> True
               | Some l \<Rightarrow> Major (r_Version r) \<noteq> Major l \<or> Minor (r_Version r) \<noteq> Minor l)
      then
        (let n' = (if latest \<noteq> None then n - 1 else n)
         in if n' = 0 then []
            else r # stable_loop rs (Some (line_of r)) n' 1)
      else if cnt < 2 then r # stable_loop rs latest n (cnt + 1)
      else stable_loop rs latest n (cnt + 1))"

definition selectRecentReleases :: "Env \<Rightarrow> int \<Rightarrow> Release list" where
  "selectRecentReleases env n =
     unstable_loop (rev (releases env)) None @ stable_loop (rev (releases env)) None n 0"

definition RecentReleases ::
    "runtime \<Rightarrow> world \<Rightarrow> Env \<Rightarrow> (error + Release list) \<times> world \<times> Env" where
  "RecentReleases rt w env =
     (case (if releases env = [] then loadReleases rt w env else (Inr (), w, env)) of
        (Inl err, w', env') \<Rightarrow> (Inl err, w', env')
      | (Inr u, w', env') \<Rightarrow>
          if length (releases env') = 0 then (Inr [], w', env')
          else (Inr (rev (selectRecentReleases env' 2)), w', env'))"

definition FindRelease ::
    "runtime \<Rightarrow> world \<Rightarrow> Env \<Rightarrow> Version \<Rightarrow> (error + Release) \<times> world \<times> Env" where
  "FindRelease rt w env v =
     (case (if releases env = [] then loadReleases rt w env else (Inr (), w, env)) of
        (Inl err, w', env') \<Rightarrow> (Inl err, w', env')
      | (Inr u, w', env') \<Rightarrow>
          (case find (\<lambda>r. EqualVersion (r_Version r) v) (releases env') of
             Some r \<Rightarrow> (Inr r, w', env')
           | None \<Rightarrow> (Inl (Err ''specified version is not found''), w', env')))"

section \<open>Installed versions and the active link (goenv/env.go, goenv/install.go)\<close>

text \<open>
  The package keeps its own copy of the version type; its \<^verbatim>\<open>String\<close> and
  \<^verbatim>\<open>CompareVersion\<close> are those above.
\<close>

subsection \<open>System calls\<close>

text \<open>
  \<^verbatim>\<open>os.Stat\<close> follows a symbolic link (one step: the program links to directories
  only), \<^verbatim>\<open>os.Lstat\<close> does not. A call returns the message of its error or the new
  world. What is inside a version directory is not tracked.
\<close>

definition entry_exists :: "world \<Rightarrow> string \<Rightarrow> bool" where
  "entry_exists w p = (p \<in> set (dirs w) \<or> p \<in> set (files w))"

definition os_Stat :: "world \<Rightarrow> string \<Rightarrow> bool" where
  "os_Stat w p = (case links w p of Some t \<Rightarrow> entry_exists w t | None \<Rightarrow> entry_exists w p)"

definition os_Lstat :: "world \<Rightarrow> string \<Rightarrow> bool" where
  "os_Lstat w p = (links w p \<noteq> None \<or> entry_exists w p)"

definition os_Remove :: "world \<Rightarrow> string \<Rightarrow> string + world" where
  "os_Remove w p =
     (case faults w OpRemove of
        Some msg \<Rightarrow> Inl msg
      | None \<Rightarrow>
          if links w p \<noteq> None then Inr (w\<lparr>links := (links w)(p := None)\<rparr>)
          else if p \<in> set (files w) then Inr (w\<lparr>files := removeAll p (files w)\<rparr>)
          else if p \<in> set (dirs w) then Inr (w\<lparr>dirs := removeAll p (dirs w)\<rparr>)
          else Inl ''no such file or directory'')"

definition os_Symlink :: "world \<Rightarrow> string \<Rightarrow> string \<Rightarrow> string + world" where
  "os_Symlink w target p =
     (case faults w OpSymlink of
        Some msg \<Rightarrow> Inl msg
      | None \<Rightarrow>
          if os_Lstat w p then Inl ''file exists''
          else Inr (w\<lparr>links := (links w)(p \<mapsto> target)\<rparr>))"

definition under :: "string \<Rightarrow> string \<Rightarrow> bool" where
  "under p q = (q = p \<or> prefix (p @ ''/'') q)"

definition os_RemoveAll :: "world \<Rightarrow> string \<Rightarrow> string + world" where
  "os_RemoveAll w p =
     (case faults w OpRemoveAll of
        Some msg \<Rightarrow> Inl msg
      | None \<Rightarrow>
          Inr (w\<lparr>dirs := filter (\<lambda>q. \<not> under p q) (dirs w),
                 files := filter (\<lambda>q. \<not> under p q) (files w),
                 links := (\<lambda>q. if under p q then None else links w q)\<rparr>))"

definition os_Mkdir :: "world \<Rightarrow> string \<Rightarrow> string + world" where
  "os_Mkdir w p =
     (case faults w OpMkdir of
        Some msg \<Rightarrow> Inl msg
      | None \<Rightarrow>
          if os_Lstat w p then Inl ''file exists''
          else Inr (w\<lparr>dirs := p # dirs w\<rparr>))"

definition os_MkdirAll :: "world \<Rightarrow> string \<Rightarrow> string + world" where
  "os_MkdirAll w p =
     (case faults w OpMkdirAll of
        Some msg \<Rightarrow> Inl msg
      | None \<Rightarrow>
          if p \<in> set (dirs w) then Inr w
          else if os_Lstat w p then Inl ''not a directory''
          else Inr (w\<lparr>dirs := p # dirs w\<rparr>))"

subsection \<open>The registry and the link\<close>

definition HasVersion :: "Env \<Rightarrow> Version \<Rightarrow> bool" where
  "HasVersion env v =
     (case map_of (installedVersions env) (String v) of None \<Rightarrow> False | Some x \<Rightarrow> True)"

definition version_less :: "Version \<Rightarrow> Version \<Rightarrow> bool" where
  "version_less a b = (CompareVersion a b < 0)"

definition InstalledVersions :: "Env \<Rightarrow> Version list" where
  "InstalledVersions env = sort_Slice version_less (map snd (installedVersions env))"

definition linkPath :: "Env \<Rightarrow> string" where
  "linkPath env = filepath_Join (envRoot env) (verLinkName env)"

definition versionGoRoot :: "Env \<Rightarrow> Version \<Rightarrow> string" where
  "versionGoRoot env v = filepath_Join (envRoot env) (''go'' @ String v)"

definition makeLink :: "world \<Rightarrow> Env \<Rightarrow> Version \<Rightarrow> (error + unit) \<times> world" where
  "makeLink w env v =
     (let goRoot = versionGoRoot env v; path = linkPath env
      in case (if os_Lstat w path then os_Remove w path else Inr w) of
           Inl msg \<Rightarrow> (Inl (Err (''failed to remove current symbolic link: '' @ msg)), w)
         | Inr w1 \<Rightarrow>
             (case os_Symlink w1 goRoot path of
                Inl msg \<Rightarrow> (Inl (Err (''failed to create new symbolic link: '' @ msg)), w1)
              | Inr w2 \<Rightarrow> (Inr (), w2)))"

definition Switch :: "world \<Rightarrow> Env \<Rightarrow> Version \<Rightarrow> (error + unit) \<times> world" where
  "Switch w env v =
     (if HasVersion env v then (Inl (Err ''specified version is not installed''), w)
      else makeLink w env v)"

definition fixBrokenLink :: "world \<Rightarrow> Env \<Rightarrow> (error + unit) \<times> world" where
  "fixBrokenLink w env =
     (let path = linkPath env
      in if os_Stat w path then (Inr (), w)
         else
           let versions = InstalledVersions env
           in if length versions = 0 then (Inr (), w)
              else makeLink w env (versions ! (length versions - 1)))"

subsection \<open>Install and Uninstall\<close>

datatype extractor = TarArchive string bool | ZipArchive string

definition HasSuffix :: "string \<Rightarrow> string \<Rightarrow> bool" where
  "HasSuffix s sfx = suffix sfx s"

definition getExtractor :: "string \<Rightarrow> error + extractor" where
  "getExtractor path =
     (if HasSuffix path ''.tar'' then Inr (TarArchive path False)
      else if HasSuffix path ''.tar.gz'' then Inr (TarArchive path True)
      else if HasSuffix path ''.zip'' then Inr (ZipArchive path)
      else Inl (Err ''unsupported archive''))"

definition downloadBaseURL :: string where
  "downloadBaseURL = ''https://dl.google.com/go/''"

definition downloadURL ::
    "runtime \<Rightarrow> world \<Rightarrow> Env \<Rightarrow> Version \<Rightarrow> (error + string \<times> string) \<times> world \<times> Env" where
  "downloadURL rt w env v =
     (case FindRelease rt w env v of
        (Inl err, w', env') \<Rightarrow> (Inl err, w', env')
      | (Inr r, w', env') \<Rightarrow> (Inr (downloadBaseURL @ r_Filename r, r_Filename r), w', env'))"

text \<open>
  \<^verbatim>\<open>download\<close> fetches the archive and writes it to the cache path; every way it can
  fail is the fault \<open>OpDownload\<close>, whose message is the whole error.
\<close>

definition download :: "world \<Rightarrow> string \<Rightarrow> string \<Rightarrow> (error + unit) \<times> world" where
  "download w url path =
     (let w1 = log_event (HttpGet url) w
      in case faults w OpDownload of
           Some msg \<Rightarrow> (Inl (Err msg), w1)
         | None \<Rightarrow> (Inr (), (log_event (WriteFile path) w1)\<lparr>files := path # files w1\<rparr>))"

text \<open>
  \<^verbatim>\<open>Install\<close>. The result of \<^verbatim>\<open>e.extract(goRoot)\<close> is dropped by the code, and the
  files it writes lie inside the version directory, so the step leaves the model's world
  as it is.
\<close>

definition Install ::
    "runtime \<Rightarrow> world \<Rightarrow> Env \<Rightarrow> Version \<Rightarrow> (error + unit) \<times> world \<times> Env" where
  "Install rt w env v =
     (if HasVersion env v
      then (Inl (Err ''specified version is already installed''), w, env)
      else
        case downloadURL rt w env v of
          (Inl err, w1, env1) \<Rightarrow> (Inl err, w1, env1)
        | (Inr (dlURL, dlName), w1, env1) \<Rightarrow>
            (let cachePath = filepath_Join (cacheDir env1) dlName
             in case getExtractor cachePath of
                  Inl err \<Rightarrow> (Inl err, w1, env1)
                | Inr e \<Rightarrow>
                    (case os_MkdirAll w1 (cacheDir env1) of
                       Inl msg \<Rightarrow>
                         (Inl (Err (''failed to create cache directory: '' @ msg)), w1, env1)
                     | Inr w2 \<Rightarrow>
                         (let goRoot = versionGoRoot env1 v
                          in case (if \<not> os_Stat w2 cachePath
                                   then download w2 dlURL cachePath else (Inr (), w2)) of
                               (Inl err, w3) \<Rightarrow> (Inl err, w3, env1)
                             | (Inr u, w3) \<Rightarrow>
                                 if os_Stat w3 goRoot
                                 then (Inl (Err ''install target directory already exists''),
                                       w3, env1)
                                 else
                                   (case os_Mkdir w3 goRoot of
                                      Inl msg \<Rightarrow>
                                        (Inl (Err (''failed to create install target directory: ''
                                                   @ msg)), w3, env1)
                                    | Inr w4 \<Rightarrow>
                                        (case fixBrokenLink w4 env1 of
                                           (res, w5) \<Rightarrow> (res, w5, env1)))))))"

definition Uninstall :: "world \<Rightarrow> Env \<Rightarrow> Version \<Rightarrow> (error + unit) \<times> world \<times> Env" where
  "Uninstall w env v =
     (if \<not> HasVersion env v
      then (Inl (Err ''specified version is not installed''), w, env)
      else
        let goRoot = versionGoRoot env v
        in case os_RemoveAll w goRoot of
             Inl msg \<Rightarrow>
               (Inl (Err (''failed to remove '' @ goRoot @ '': '' @ msg)), w, env)
           | Inr w1 \<Rightarrow>
               (let env1 = env\<lparr>installedVersions :=
                                 AList.delete (String v) (installedVersions env)\<rparr>
                in case fixBrokenLink w1 env1 of
                     (res, w2) \<Rightarrow> (res, w2, env1)))"

text \<open>
  The registry agrees with the disk when every key is the canonical string of its
  version and the directory of every registered version exists; the link path is well
  formed when it names no directory and no regular file (nothing, or a symbolic link).
\<close>

definition registry_ok :: "world \<Rightarrow> Env \<Rightarrow> bool" where
  "registry_ok w env =
     (distinct (map fst (installedVersions env)) \<and>
      list_all (\<lambda>(k, v). k = String v \<and> versionGoRoot env v \<in> set (dirs w))
        (installedVersions env))"

definition link_ok :: "world \<Rightarrow> Env \<Rightarrow> bool" where
  "link_ok w env = (\<not> entry_exists w (linkPath env))"

subsection \<open>A concrete listing\<close>

text \<open>
  A listing in the shape of the endpoint's answer, as downloaded on linux/amd64: every
  release offers a source archive, an installer for another system and the archive for
  the target. It holds the stable releases 1.14.1, 1.14.2, 1.14.3, 1.15.1, 1.15.2 and
  the unstable releases 1.16beta1, 1.16beta2, 1.16rc1, in no particular order.
\<close>

definition linux_amd64 :: runtime where
  "linux_amd64 = \<lparr>GOOS = ''linux'', GOARCH = ''amd64''\<rparr>"

definition listed :: "string \<Rightarrow> bool \<Rightarrow> remoteRelease" where
  "listed ver st =
     \<lparr>rr_Version = ver, rr_Stable = st,
      rr_Files =
        [\<lparr>f_Filename = ver @ ''.src.tar.gz'', f_OS = [], f_Arch = [], f_Version = ver,
          f_ChecksumSHA256 = ''00'', f_Size = 1, f_Kind = ''source''\<rparr>,
         \<lparr>f_Filename = ver @ ''.darwin-amd64.pkg'', f_OS = ''darwin'', f_Arch = ''amd64'',
          f_Version = ver, f_ChecksumSHA256 = ''01'', f_Size = 2, f_Kind = ''installer''\<rparr>,
         \<lparr>f_Filename = ver @ ''.linux-amd64.tar.gz'', f_OS = ''linux'', f_Arch = ''amd64'',
          f_Version = ver, f_ChecksumSHA256 = ''02'', f_Size = 3, f_Kind = ''archive''\<rparr>]\<rparr>"

definition sample_listing :: "remoteRelease list" where
  "sample_listing =
     [listed ''go1.16rc1'' False, listed ''go1.15.2'' True, listed ''go1.14.3'' True,
      listed ''go1.16beta2'' False, listed ''go1.16beta1'' False, listed ''go1.15.1'' True,
      listed ''go1.14.2'' True, listed ''go1.14.1'' True]"

definition sample_world :: world where
  "sample_world =
     \<lparr>cache = Listing sample_listing, trace = [], dirs = [''/usr/local/go''], files = [],
      links = Map.empty, faults = (\<lambda>op. None)\<rparr>"

definition fresh_env :: Env where
  "fresh_env =
     \<lparr>envRoot = ''/usr/local/go'', verLinkName = ''current'',
      confDir = ''/home/u/.config/gosw'', cacheDir = ''/home/u/.cache/gosw'',
      installedVersions = [], releases = []\<rparr>"

definition sample_env :: Env where
  "sample_env = snd (snd (loadReleases linux_amd64 sample_world fresh_env))"

text \<open>
  Two states for installing: the first installation on an empty root, and a root that
  holds 1.14.3 while the link still points at a directory that is gone.
\<close>

definition stale_world :: world where
  "stale_world =
     sample_world\<lparr>dirs := [''/usr/local/go'', ''/usr/local/go/go1.14.3''],
                   links := [''/usr/local/go/current'' \<mapsto> ''/usr/local/go/go1.13'']\<rparr>"

definition stale_env :: Env where
  "stale_env =
     fresh_env\<lparr>installedVersions :=
       [(''1.14.3'', \<lparr>Type = Stable, Major = 1, Minor = 14, Patch = 3, Release = 0\<rparr>)]\<rparr>"

definition sample_release :: "string \<Rightarrow> Version \<Rightarrow> bool \<Rightarrow> Release" where
  "sample_release ver v st =
     \<lparr>r_Version = v, r_Stable = st, r_Filename = ver @ ''.linux-amd64.tar.gz'',
      r_ChecksumSHA256 = ''02'', r_Size = 3\<rparr>"

definition version_names :: "Release list \<Rightarrow> string list" where
  "version_names rls = map (\<lambda>r. String (r_Version r)) rls"

definition result_names :: "(error + Release list) \<times> world \<times> Env \<Rightarrow> string list option" where
  "result_names res = (case fst res of Inl err \<Rightarrow> None | Inr rls \<Rightarrow> Some (version_names rls))"

section \<open>Properties of the version parser\<close>

lemmas version_eval =
  ParseVersion_def headVersion_def TrimPrefix_def FindStringSubmatch_def Atoi_def
  digits1_def is_digit_def digit_val_def decimal_digits_def Let_def String_def fmt_d_def nat_dec.simps
  digit_char_def

subsection \<open>Decimal numerals\<close>

lemma digit_val_eq_Some:
  "digit_val c = Some d \<Longrightarrow> d < 10 \<and> digit_char d = c"
  by (auto simp: digit_val_def decimal_digits_def digit_char_def split: if_splits)

lemma digit_val_digit_char: "d < 10 \<Longrightarrow> digit_val (digit_char d) = Some d"
proof -
  assume "d < 10"
  then have "d \<in> {0,1,2,3,4,5,6,7,8,9}" by auto
  then show ?thesis
    by (auto simp: digit_val_def decimal_digits_def digit_char_def)
qed

lemma is_digit_digit_char: "d < 10 \<Longrightarrow> is_digit (digit_char d)"
  by (simp add: is_digit_def digit_val_digit_char)

lemma not_digit_chars:
  "\<not> is_digit CHR ''.''" "\<not> is_digit CHR ''b''" "\<not> is_digit CHR ''r''" "\<not> is_digit CHR ''-''"
  "\<not> is_digit CHR ''+''" "\<not> is_digit CHR ''g''"
  by (simp_all add: is_digit_def digit_val_def decimal_digits_def)

lemma digits_val_append:
  "digits_val acc (xs @ ys) =
     (case digits_val acc xs of None \<Rightarrow> None | Some a \<Rightarrow> digits_val a ys)"
  by (induction xs arbitrary: acc) (auto split: option.splits)

lemma nat_dec_digits: "list_all is_digit (nat_dec n) \<and> nat_dec n \<noteq> []"
proof (induction n rule: nat_dec.induct)
  case (1 n)
  show ?case
  proof (cases "n < 10")
    case True
    then show ?thesis by (simp add: nat_dec.simps[of n] is_digit_digit_char)
  next
    case False
    with 1 show ?thesis by (simp add: nat_dec.simps[of n] is_digit_digit_char)
  qed
qed

lemma digits_val_nat_dec: "digits_val 0 (nat_dec n) = Some (int n)"
proof (induction n rule: nat_dec.induct)
  case (1 n)
  show ?case
  proof (cases "n < 10")
    case True
    then show ?thesis by (simp add: nat_dec.simps[of n] digit_val_digit_char)
  next
    case False
    with 1 have "digits_val 0 (nat_dec (n div 10)) = Some (int (n div 10))" by simp
    then show ?thesis using False
      by (simp add: nat_dec.simps[of n] digits_val_append digit_val_digit_char)
         presburger
  qed
qed

lemma digits_val_ge: "digits_val acc xs = Some n \<Longrightarrow> 0 \<le> acc \<Longrightarrow> 0 \<le> n"
  by (induction xs arbitrary: acc) (auto split: option.splits)

lemma hd_nat_dec_digit: "is_digit (hd (nat_dec n))"
  using nat_dec_digits[of n] by (cases "nat_dec n") auto

lemma Atoi_fmt_d: "0 \<le> i \<Longrightarrow> i < 2 ^ 63 \<Longrightarrow> Atoi (fmt_d i) = Some i"
  using nat_dec_digits[of "nat i"] hd_nat_dec_digit[of "nat i"] not_digit_chars
  by (auto simp: Atoi_def fmt_d_def Let_def digits_val_nat_dec)

lemma Atoi_digits_range:
  assumes "digits1 s" "Atoi s = Some n"
  shows "0 \<le> n \<and> n < 2 ^ 63"
proof -
  from assms(1) obtain c cs where s: "s = c # cs" and c: "is_digit c"
    by (cases s) (auto simp: digits1_def)
  from c have "c \<noteq> CHR ''-''" "c \<noteq> CHR ''+''" using not_digit_chars by auto
  with assms(2) s show ?thesis
    by (auto simp: Atoi_def Let_def split: option.splits if_splits dest: digits_val_ge[where acc = "0 * 10 + _"] digits_val_ge)
qed

subsection \<open>Printing and parsing again\<close>

lemma digits1_nat_dec: "digits1 (nat_dec n)"
  using nat_dec_digits[of n] by (simp add: digits1_def)

lemma span_digits:
  assumes "list_all is_digit xs" "rest = [] \<or> \<not> is_digit (hd rest)"
  shows "takeWhile is_digit (xs @ rest) = xs" "dropWhile is_digit (xs @ rest) = rest"
proof -
  from assms(2) have r: "takeWhile is_digit rest = []" "dropWhile is_digit rest = rest"
    by (cases rest; auto)+
  from assms(1) have a: "\<forall>x\<in>set xs. is_digit x" by (simp add: list_all_iff)
  show "takeWhile is_digit (xs @ rest) = xs" using a r by (simp add: takeWhile_append2)
  show "dropWhile is_digit (xs @ rest) = rest" using a r by (simp add: dropWhile_append2)
qed

lemma FSS_plain:
  assumes "digits1 mi"
  shows "FindStringSubmatch (''1.'' @ mi) = Some [''1.'' @ mi, ''1'', mi, [], [], [], [], [], []]"
proof -
  from assms have "takeWhile is_digit mi = mi" "dropWhile is_digit mi = []" "mi \<noteq> []"
    by (simp_all add: digits1_def list_all_iff)
  then show ?thesis by (simp add: FindStringSubmatch_def Let_def del: takeWhile_eq_all_conv)
qed

lemma FSS_patch:
  assumes "digits1 mi" "digits1 p"
  shows "FindStringSubmatch (''1.'' @ mi @ ''.'' @ p) =
         Some [''1.'' @ mi @ ''.'' @ p, ''1'', mi, ''.'' @ p, ''.'' @ p, p, [], [], []]"
  using assms span_digits[of mi "''.'' @ p"] not_digit_chars
  by (simp add: FindStringSubmatch_def digits1_def Let_def)

lemma FSS_beta:
  assumes "digits1 mi" "digits1 p"
  shows "FindStringSubmatch (''1.'' @ mi @ ''beta'' @ p) =
         Some [''1.'' @ mi @ ''beta'' @ p, ''1'', mi, ''beta'' @ p, [], [], ''beta'' @ p, ''beta'', p]"
  using assms span_digits[of mi "''beta'' @ p"] not_digit_chars
  by (simp add: FindStringSubmatch_def digits1_def Let_def)

lemma FSS_rc:
  assumes "digits1 mi" "digits1 p"
  shows "FindStringSubmatch (''1.'' @ mi @ ''rc'' @ p) =
         Some [''1.'' @ mi @ ''rc'' @ p, ''1'', mi, ''rc'' @ p, [], [], ''rc'' @ p, ''rc'', p]"
  using assms span_digits[of mi "''rc'' @ p"] not_digit_chars
  by (simp add: FindStringSubmatch_def digits1_def Let_def)

lemma fmt_d_1: "fmt_d 1 = ''1''"
  by (simp add: fmt_d_def nat_dec.simps digit_char_def)

lemma Atoi_1: "Atoi ''1'' = Some 1"
  by (simp add: Atoi_def digit_val_def decimal_digits_def)

lemma fmt_d_nonneg: "0 \<le> i \<Longrightarrow> fmt_d i = nat_dec (nat i)"
  by (simp add: fmt_d_def)

lemma parse_one_dot:
  "ParseVersion (''1.'' @ r) =
     (case FindStringSubmatch (''1.'' @ r) of
          None \<Rightarrow> Inl ErrVersionSyntax
        | Some matches \<Rightarrow>
            (case Atoi (matches ! 1) of
               None \<Rightarrow> Inl ErrVersionSyntax
             | Some major \<Rightarrow>
                 (case Atoi (matches ! 2) of
                    None \<Rightarrow> Inl ErrVersionSyntax
                  | Some minor \<Rightarrow>
                      if matches ! 3 = [] then
                        Inr \<lparr>Type = Stable, Major = major, Minor = minor,
                             Patch = 0, Release = 0\<rparr>
                      else if matches ! 5 \<noteq> [] then
                        (case Atoi (matches ! 5) of
                           None \<Rightarrow> Inl ErrVersionSyntax
                         | Some patch \<Rightarrow>
                             Inr \<lparr>Type = Stable, Major = major, Minor = minor,
                                  Patch = patch, Release = 0\<rparr>)
                      else
                        (let tp = (if matches ! 7 = ''beta'' then Beta else RC) in
                         case Atoi (matches ! 8) of
                           None \<Rightarrow> Inl ErrVersionSyntax
                         | Some rn \<Rightarrow>
                             Inr \<lparr>Type = tp, Major = major, Minor = minor,
                                  Patch = 0, Release = rn\<rparr>))))"
  by (simp add: ParseVersion_def headVersion_def TrimPrefix_def)

lemma ParseVersion_String:
  assumes "parsed_version v"
  shows "ParseVersion (String v) = Inr v"
proof (cases "Type v")
  case Head
  with assms show ?thesis
    by (simp add: parsed_version_def String_def ParseVersion_def)
next
  case Stable
  with assms have f: "Major v = 1" "0 \<le> Minor v" "Minor v < 2 ^ 63" "0 \<le> Patch v"
    "Patch v < 2 ^ 63" "Release v = 0"
    by (simp_all add: parsed_version_def)
  show ?thesis
  proof (cases "Patch v > 0")
    case True
    have "String v = ''1.'' @ fmt_d (Minor v) @ ''.'' @ fmt_d (Patch v)"
      using Stable True f by (simp add: String_def fmt_d_1)
    moreover have "digits1 (fmt_d (Minor v))" "digits1 (fmt_d (Patch v))"
      using f by (simp_all add: fmt_d_nonneg digits1_nat_dec)
    moreover have "fmt_d (Patch v) \<noteq> []" using calculation(3) by (simp add: digits1_def)
    ultimately show ?thesis using f Stable
      by (simp add: parse_one_dot FSS_patch Atoi_1 Atoi_fmt_d del: append.simps)
  next
    case False
    with f have p: "Patch v = 0" by simp
    have "String v = ''1.'' @ fmt_d (Minor v)"
      using Stable p f by (simp add: String_def fmt_d_1)
    moreover have "digits1 (fmt_d (Minor v))"
      using f by (simp_all add: fmt_d_nonneg digits1_nat_dec)
    ultimately show ?thesis using f Stable p
      by (simp add: parse_one_dot FSS_plain Atoi_1 Atoi_fmt_d del: append.simps)
  qed
next
  case Beta
  with assms have f: "Major v = 1" "0 \<le> Minor v" "Minor v < 2 ^ 63" "0 \<le> Release v"
    "Release v < 2 ^ 63" "Patch v = 0"
    by (simp_all add: parsed_version_def)
  have "String v = ''1.'' @ fmt_d (Minor v) @ ''beta'' @ fmt_d (Release v)"
    using Beta f by (simp add: String_def fmt_d_1)
  moreover have "digits1 (fmt_d (Minor v))" "digits1 (fmt_d (Release v))"
    using f by (simp_all add: fmt_d_nonneg digits1_nat_dec)
  ultimately show ?thesis using f Beta
    by (simp add: parse_one_dot FSS_beta Atoi_1 Atoi_fmt_d del: append.simps)
next
  case RC
  with assms have f: "Major v = 1" "0 \<le> Minor v" "Minor v < 2 ^ 63" "0 \<le> Release v"
    "Release v < 2 ^ 63" "Patch v = 0"
    by (simp_all add: parsed_version_def)
  have "String v = ''1.'' @ fmt_d (Minor v) @ ''rc'' @ fmt_d (Release v)"
    using RC f by (simp add: String_def fmt_d_1)
  moreover have "digits1 (fmt_d (Minor v))" "digits1 (fmt_d (Release v))"
    using f by (simp_all add: fmt_d_nonneg digits1_nat_dec)
  ultimately show ?thesis using f RC
    by (simp add: parse_one_dot FSS_rc Atoi_1 Atoi_fmt_d del: append.simps)
qed

lemma digits1_takeWhile: "takeWhile is_digit r \<noteq> [] \<Longrightarrow> digits1 (takeWhile is_digit r)"
  by (auto simp: digits1_def list_all_iff dest: set_takeWhileD)

lemma FSS_groups:
  assumes "FindStringSubmatch s = Some m"
  shows "m ! 1 = ''1'' \<and> digits1 (m ! 2) \<and>
         (m ! 3 = [] \<or> digits1 (m ! 5) \<or> (m ! 5 = [] \<and> digits1 (m ! 8)))"
  using assms
  by (auto simp: FindStringSubmatch_def Let_def digits1_takeWhile split: if_splits)

lemma ParseVersion_parsed:
  assumes "ParseVersion s = Inr v"
  shows "parsed_version v"
proof (cases "s = headVersion")
  case True
  with assms show ?thesis by (auto simp: ParseVersion_def parsed_version_def)
next
  case False
  with assms obtain m where m: "FindStringSubmatch (TrimPrefix s ''go'') = Some m"
    by (auto simp: ParseVersion_def Let_def split: option.splits)
  note g = FSS_groups[OF m]
  from g have mj: "Atoi (m ! 1) = Some 1" by (simp add: Atoi_1)
  from assms False m mj obtain mi where mi: "Atoi (m ! 2) = Some mi"
    by (auto simp: ParseVersion_def Let_def split: option.splits)
  with g have mir: "0 \<le> mi" "mi < 2 ^ 63" using Atoi_digits_range by blast+
  show ?thesis
  proof (cases "m ! 3 = []")
    case True
    with assms False m mj mi mir show ?thesis
      by (auto simp: ParseVersion_def Let_def parsed_version_def)
  next
    case n3: False
    show ?thesis
    proof (cases "m ! 5 = []")
      case True
      with g n3 have d: "digits1 (m ! 8)" by (auto simp: digits1_def)
      from assms False m mj mi n3 True obtain rn where rn: "Atoi (m ! 8) = Some rn"
        by (auto simp: ParseVersion_def Let_def split: option.splits)
      with d have "0 \<le> rn" "rn < 2 ^ 63" using Atoi_digits_range by blast+
      with assms False m mj mi mir n3 True rn show ?thesis
        by (auto simp: ParseVersion_def Let_def parsed_version_def split: if_splits)
    next
      case n5: False
      with g n3 have d: "digits1 (m ! 5)" by auto
      from assms False m mj mi n3 n5 obtain p where p: "Atoi (m ! 5) = Some p"
        by (auto simp: ParseVersion_def Let_def split: option.splits)
      with d have "0 \<le> p" "p < 2 ^ 63" using Atoi_digits_range by blast+
      with assms False m mj mi mir n3 n5 p show ?thesis
        by (auto simp: ParseVersion_def Let_def parsed_version_def)
    qed
  qed
qed

lemma parsed_version_iff: "parsed_version v \<longleftrightarrow> (\<exists>s. ParseVersion s = Inr v)"
  using ParseVersion_parsed ParseVersion_String by blast

lemma String_inj: "parsed_version x \<Longrightarrow> parsed_version y \<Longrightarrow> String x = String y \<Longrightarrow> x = y"
  using ParseVersion_String by (metis sum.inject(2))

lemma Compare_zero_eq:
  assumes "parsed_version x" "parsed_version y" "CompareVersion x y = 0"
  shows "x = y"
proof -
  have "Type x = Type y \<and> Major x = Major y \<and> Minor x = Minor y \<and> Patch x = Patch y \<and> Release x = Release y"
    using assms
    by (cases "Type x"; cases "Type y")
       (auto simp: CompareVersion_def compareInt_def parsed_version_def split: if_splits)
  then show ?thesis by simp
qed

lemma Compare_refl: "CompareVersion x x = 0"
  by (simp add: CompareVersion_def compareInt_def)

lemma Compare_antisym: "CompareVersion y x = - CompareVersion x y"
  by (cases "Type x"; cases "Type y") (auto simp: CompareVersion_def compareInt_def)

lemma Compare_range: "CompareVersion x y \<in> {- 1, 0, 1}"
  by (auto simp: CompareVersion_def compareInt_def)

lemma Compare_trans:
  "CompareVersion x y \<le> 0 \<Longrightarrow> CompareVersion y z \<le> 0 \<Longrightarrow> CompareVersion x z \<le> 0"
  by (cases "Type x"; cases "Type y"; cases "Type z")
     (auto simp: CompareVersion_def compareInt_def split: if_splits)

lemma Compare_trans_lt:
  "CompareVersion x y < 0 \<Longrightarrow> CompareVersion y z < 0 \<Longrightarrow> CompareVersion x z < 0"
  by (cases "Type x"; cases "Type y"; cases "Type z")
     (auto simp: CompareVersion_def compareInt_def split: if_splits)

subsection \<open>The claims about the parser and the comparison\<close>

text \<open>
  Claim C4. \<open>ParseVersion\<close> returns the syntax error on each of the malformed inputs
  \<^verbatim>\<open>1.16.\<close>, \<^verbatim>\<open>1.15.10.\<close>, \<^verbatim>\<open>1.16beta\<close>, \<^verbatim>\<open>1.15xxx10\<close>, \<^verbatim>\<open>1.15..10\<close>,
  \<^verbatim>\<open>1.2.3.4\<close>, \<^verbatim>\<open>10\<close> and the malformed sentinel \<^verbatim>\<open>-head\<close>.
\<close>

theorem ParseVersion_rejects_malformed:
  "ParseVersion ''1.16.'' = Inl ErrVersionSyntax \<and>
   ParseVersion ''1.15.10.'' = Inl ErrVersionSyntax \<and>
   ParseVersion ''1.16beta'' = Inl ErrVersionSyntax \<and>
   ParseVersion ''1.15xxx10'' = Inl ErrVersionSyntax \<and>
   ParseVersion ''1.15..10'' = Inl ErrVersionSyntax \<and>
   ParseVersion ''1.2.3.4'' = Inl ErrVersionSyntax \<and>
   ParseVersion ''10'' = Inl ErrVersionSyntax \<and>
   ParseVersion ''-head'' = Inl ErrVersionSyntax"
  by (simp add: version_eval)

lemma canonical_parse_results:
  "map ParseVersion canonical_strings =
     [Inr \<lparr>Type = Stable, Major = 1, Minor = 16, Patch = 0, Release = 0\<rparr>,
      Inr \<lparr>Type = Stable, Major = 1, Minor = 15, Patch = 10, Release = 0\<rparr>,
      Inr \<lparr>Type = Beta, Major = 1, Minor = 16, Patch = 0, Release = 3\<rparr>,
      Inr \<lparr>Type = RC, Major = 1, Minor = 15, Patch = 0, Release = 10\<rparr>,
      Inl ErrVersionSyntax,
      Inl ErrVersionSyntax,
      Inr \<lparr>Type = Head, Major = 0, Minor = 0, Patch = 0, Release = 0\<rparr>]"
  by (simp add: canonical_strings_def version_eval)



text \<open>
  Claim C3. For all versions \<open>x\<close> and \<open>y\<close>, \<open>CompareVersion x y\<close> is the ordering
  of the specification: a head version is above every other version and two heads are
  equal; otherwise major decides, then minor; with these equal and the kinds different,
  the rank Stable > ReleaseCandidate > Beta decides; with the kinds equal, stable versions
  compare by patch and beta and rc versions by release number.
\<close>

theorem CompareVersion_is_Compare_spec:
  "CompareVersion x y = Compare_spec x y"
  by (cases "Type x"; cases "Type y")
     (simp_all add: CompareVersion_def Compare_spec_def stability_rank_def compareInt_def)

text \<open>
  Claim C5. \<open>CompareVersion\<close> is a total order usable as a sort key: it is reflexive
  at 0, antisymmetric in sign, takes only the values -1, 0 and 1, and is transitive both
  as \<open>\<le>\<close> and as \<open><\<close>; and for versions \<open>x\<close>, \<open>y\<close> that the parser produced,
  \<open>EqualVersion x y\<close> holds exactly when \<open>String x = String y\<close>, which is exactly when
  \<open>x = y\<close>, so that distinct parsed versions are strictly ordered one way or the other.
\<close>

theorem CompareVersion_total_order:
  "CompareVersion x x = 0 \<and>
   CompareVersion y x = - CompareVersion x y \<and>
   CompareVersion x y \<in> {- 1, 0, 1} \<and>
   (CompareVersion x y \<le> 0 \<and> CompareVersion y z \<le> 0 \<longrightarrow> CompareVersion x z \<le> 0) \<and>
   (CompareVersion x y < 0 \<and> CompareVersion y z < 0 \<longrightarrow> CompareVersion x z < 0) \<and>
   ((\<exists>s. ParseVersion s = Inr x) \<and> (\<exists>t. ParseVersion t = Inr y) \<longrightarrow>
      (EqualVersion x y \<longleftrightarrow> String x = String y) \<and>
      (EqualVersion x y \<longleftrightarrow> x = y) \<and>
      (x \<noteq> y \<longrightarrow> CompareVersion x y < 0 \<or> CompareVersion y x < 0))"
proof -
  have eq: "(EqualVersion x y \<longleftrightarrow> String x = String y) \<and> (EqualVersion x y \<longleftrightarrow> x = y) \<and>
      (x \<noteq> y \<longrightarrow> CompareVersion x y < 0 \<or> CompareVersion y x < 0)"
    if px: "parsed_version x" and py: "parsed_version y"
  proof -
    have a: "EqualVersion x y \<longleftrightarrow> x = y"
      using Compare_zero_eq [OF px py] Compare_refl by (auto simp: EqualVersion_def)
    have b: "String x = String y \<longleftrightarrow> x = y"
      using String_inj [OF px py] by auto
    have c: "x \<noteq> y \<longrightarrow> CompareVersion x y < 0 \<or> CompareVersion y x < 0"
      using a Compare_antisym [of x y] by (auto simp: EqualVersion_def)
    from a b c show ?thesis by simp
  qed
  show ?thesis
    using Compare_refl [of x] Compare_antisym [of x y] Compare_range [of x y]
      Compare_trans [of x y z] Compare_trans_lt [of x y z] eq
    by (simp add: parsed_version_iff) blast
qed

theorem CompareVersion_total_order_witness:
  "ParseVersion ''1.15.9'' =
     Inr \<lparr>Type = Stable, Major = 1, Minor = 15, Patch = 9, Release = 0\<rparr> \<and>
   ParseVersion ''1.16rc1'' =
     Inr \<lparr>Type = RC, Major = 1, Minor = 16, Patch = 0, Release = 1\<rparr> \<and>
   CompareVersion \<lparr>Type = Stable, Major = 1, Minor = 15, Patch = 9, Release = 0\<rparr>
     \<lparr>Type = RC, Major = 1, Minor = 16, Patch = 0, Release = 1\<rparr> < 0 \<and>
   CompareVersion \<lparr>Type = RC, Major = 1, Minor = 16, Patch = 0, Release = 1\<rparr>
     \<lparr>Type = Head, Major = 0, Minor = 0, Patch = 0, Release = 0\<rparr> < 0 \<and>
   CompareVersion \<lparr>Type = Stable, Major = 1, Minor = 15, Patch = 9, Release = 0\<rparr>
     \<lparr>Type = Head, Major = 0, Minor = 0, Patch = 0, Release = 0\<rparr> < 0 \<and>
   \<not> EqualVersion \<lparr>Type = Stable, Major = 1, Minor = 15, Patch = 9, Release = 0\<rparr>
     \<lparr>Type = RC, Major = 1, Minor = 16, Patch = 0, Release = 1\<rparr> \<and>
   String \<lparr>Type = Stable, Major = 1, Minor = 15, Patch = 9, Release = 0\<rparr> \<noteq>
     String \<lparr>Type = RC, Major = 1, Minor = 16, Patch = 0, Release = 1\<rparr>"
proof -
  let ?x = "\<lparr>Type = Stable, Major = 1, Minor = 15, Patch = 9, Release = 0\<rparr>"
  let ?y = "\<lparr>Type = RC, Major = 1, Minor = 16, Patch = 0, Release = 1\<rparr>"
  let ?z = "\<lparr>Type = Head, Major = 0, Minor = 0, Patch = 0, Release = 0\<rparr>"
  have px: "ParseVersion ''1.15.9'' = Inr ?x" by (simp add: version_eval)
  have py: "ParseVersion ''1.16rc1'' = Inr ?y" by (simp add: version_eval)
  have xy: "CompareVersion ?x ?y < 0" by (simp add: CompareVersion_def compareInt_def)
  have yz: "CompareVersion ?y ?z < 0" by (simp add: CompareVersion_def compareInt_def)
  have ne: "\<not> EqualVersion ?x ?y" using xy by (simp add: EqualVersion_def)
  from CompareVersion_total_order [of ?x ?y ?z] px py xy yz ne
  have "CompareVersion ?x ?z < 0" and "String ?x \<noteq> String ?y"
    by blast+
  with px py xy yz ne show ?thesis by blast
qed

section \<open>Properties of the release catalog\<close>

subsection \<open>The concrete listing, loaded\<close>

lemmas catalog_eval = sample_env_def loadReleases_def sample_world_def fresh_env_def
  sample_listing_def listed_def linux_amd64_def convertReleases_def targetRelease_def
  sort_Slice_def release_less_def CompareVersion_def compareInt_def log_event_def
  filepath_Join_def downloadListFileName_def Let_def

lemma listed_parse:
  "ParseVersion (TrimPrefix ''go1.16rc1'' ''go'') = Inr \<lparr>Type = RC, Major = 1, Minor = 16, Patch = 0, Release = 1\<rparr>"
  "ParseVersion (TrimPrefix ''go1.16beta2'' ''go'') = Inr \<lparr>Type = Beta, Major = 1, Minor = 16, Patch = 0, Release = 2\<rparr>"
  "ParseVersion (TrimPrefix ''go1.16beta1'' ''go'') = Inr \<lparr>Type = Beta, Major = 1, Minor = 16, Patch = 0, Release = 1\<rparr>"
  "ParseVersion (TrimPrefix ''go1.15.2'' ''go'') = Inr \<lparr>Type = Stable, Major = 1, Minor = 15, Patch = 2, Release = 0\<rparr>"
  "ParseVersion (TrimPrefix ''go1.15.1'' ''go'') = Inr \<lparr>Type = Stable, Major = 1, Minor = 15, Patch = 1, Release = 0\<rparr>"
  "ParseVersion (TrimPrefix ''go1.14.3'' ''go'') = Inr \<lparr>Type = Stable, Major = 1, Minor = 14, Patch = 3, Release = 0\<rparr>"
  "ParseVersion (TrimPrefix ''go1.14.2'' ''go'') = Inr \<lparr>Type = Stable, Major = 1, Minor = 14, Patch = 2, Release = 0\<rparr>"
  "ParseVersion (TrimPrefix ''go1.14.1'' ''go'') = Inr \<lparr>Type = Stable, Major = 1, Minor = 14, Patch = 1, Release = 0\<rparr>"
  by (simp_all add: version_eval)

lemma sample_env_releases:
  "releases sample_env =
    [sample_release ''go1.14.1'' \<lparr>Type = Stable, Major = 1, Minor = 14, Patch = 1, Release = 0\<rparr> True,
     sample_release ''go1.14.2'' \<lparr>Type = Stable, Major = 1, Minor = 14, Patch = 2, Release = 0\<rparr> True,
     sample_release ''go1.14.3'' \<lparr>Type = Stable, Major = 1, Minor = 14, Patch = 3, Release = 0\<rparr> True,
     sample_release ''go1.15.1'' \<lparr>Type = Stable, Major = 1, Minor = 15, Patch = 1, Release = 0\<rparr> True,
     sample_release ''go1.15.2'' \<lparr>Type = Stable, Major = 1, Minor = 15, Patch = 2, Release = 0\<rparr> True,
     sample_release ''go1.16beta1'' \<lparr>Type = Beta, Major = 1, Minor = 16, Patch = 0, Release = 1\<rparr> False,
     sample_release ''go1.16beta2'' \<lparr>Type = Beta, Major = 1, Minor = 16, Patch = 0, Release = 2\<rparr> False,
     sample_release ''go1.16rc1'' \<lparr>Type = RC, Major = 1, Minor = 16, Patch = 0, Release = 1\<rparr> False]"
  by (simp add: catalog_eval listed_parse sample_release_def)

lemmas select_eval = selectRecentReleases_def line_of_def sample_release_def version_names_def
  String_def fmt_d_def nat_dec.simps digit_char_def

lemma select_sample:
  "version_names (selectRecentReleases sample_env 2) =
     [''1.16rc1'', ''1.16beta2'', ''1.16beta1'', ''1.15.2'', ''1.15.1'', ''1.14.3'', ''1.14.2'']"
  by (simp add: sample_env_releases select_eval)

lemma load_sample:
  "loadReleases linux_amd64 sample_world fresh_env =
     (Inr (),
      sample_world\<lparr>trace := [StatFile ''/home/u/.config/gosw/downloads.json'',
                              OpenFile ''/home/u/.config/gosw/downloads.json'']\<rparr>,
      sample_env)"
proof -
  have "\<exists>rls. convertReleases linux_amd64 sample_listing = Inr rls"
    by (simp add: catalog_eval listed_parse)
  then show ?thesis
    by (auto simp: sample_env_def loadReleases_def sample_world_def fresh_env_def log_event_def
      filepath_Join_def downloadListFileName_def Let_def)
qed

lemma recent_sample:
  "result_names (RecentReleases linux_amd64 sample_world fresh_env) =
     Some [''1.14.2'', ''1.14.3'', ''1.15.1'', ''1.15.2'', ''1.16beta1'', ''1.16beta2'', ''1.16rc1'']"
proof -
  have ne: "releases sample_env \<noteq> []" by (simp add: sample_env_releases)
  have fr: "releases fresh_env = []" by (simp add: fresh_env_def)
  have vn: "version_names (rev xs) = rev (version_names xs)" for xs
    by (simp add: version_names_def rev_map)
  have "result_names (RecentReleases linux_amd64 sample_world fresh_env) =
      Some (rev (version_names (selectRecentReleases sample_env 2)))"
    using ne fr by (simp add: RecentReleases_def load_sample result_names_def vn)
  then show ?thesis by (simp add: select_sample)
qed

text \<open>
  Claim C1, as stated, fails: for the catalog with the stable releases 1.14.1, 1.14.2,
  1.14.3, 1.15.1, 1.15.2 and the unstable releases 1.16beta1, 1.16beta2, 1.16rc1,
  \<open>RecentReleases\<close> does not return the sequence 1.16rc1, 1.16beta2, 1.16beta1, 1.15.2,
  1.15.1, 1.14.3, 1.14.2.
\<close>

theorem RecentReleases_newest_first_counterexample:
  "result_names (RecentReleases linux_amd64 sample_world fresh_env) \<noteq>
     Some [''1.16rc1'', ''1.16beta2'', ''1.16beta1'', ''1.15.2'', ''1.15.1'', ''1.14.3'',
           ''1.14.2'']"
  by (simp add: recent_sample)

text \<open>
  Claim C1, amended. For that catalog the iterator \<open>selectRecentReleases\<close> with n = 2
  yields 1.16rc1, 1.16beta2, 1.16beta1, 1.15.2, 1.15.1, 1.14.3, 1.14.2, newest first and
  the unstable line before the stable groups; \<open>RecentReleases\<close> returns that sequence
  reversed, oldest first: 1.14.2, 1.14.3, 1.15.1, 1.15.2, 1.16beta1, 1.16beta2, 1.16rc1,
  the stable groups before the unstable line.
\<close>

theorem RecentReleases_sample:
  "version_names (releases sample_env) =
     [''1.14.1'', ''1.14.2'', ''1.14.3'', ''1.15.1'', ''1.15.2'', ''1.16beta1'', ''1.16beta2'',
      ''1.16rc1''] \<and>
   version_names (selectRecentReleases sample_env 2) =
     [''1.16rc1'', ''1.16beta2'', ''1.16beta1'', ''1.15.2'', ''1.15.1'', ''1.14.3'', ''1.14.2''] \<and>
   result_names (RecentReleases linux_amd64 sample_world fresh_env) =
     Some [''1.14.2'', ''1.14.3'', ''1.15.1'', ''1.15.2'', ''1.16beta1'', ''1.16beta2'',
           ''1.16rc1'']"
  by (simp add: recent_sample select_sample) (simp add: sample_env_releases select_eval)

subsection \<open>Loading the catalog\<close>

lemma ParseVersion_error: "ParseVersion s = Inl e \<Longrightarrow> e = ErrVersionSyntax"
  by (auto simp: ParseVersion_def Let_def split: if_splits option.splits)

lemma those_append:
  "those (xs @ ys) =
     (case those xs of
        None \<Rightarrow> None
      | Some a \<Rightarrow> (case those ys of None \<Rightarrow> None | Some b \<Rightarrow> Some (a @ b)))"
  by (induction xs) (auto split: option.splits)

lemma convertFiles_eq:
  "convertFiles rt r fs rls =
     (case those (map (convert_one r) (filter (targetRelease rt) fs)) of
        None \<Rightarrow> Inl ErrVersionSyntax
      | Some xs \<Rightarrow> Inr (rls @ xs))"
proof (induction fs arbitrary: rls)
  case Nil
  then show ?case by simp
next
  case (Cons f fs)
  show ?case
  proof (cases "targetRelease rt f")
    case False
    then show ?thesis using Cons by simp
  next
    case True
    show ?thesis
    proof (cases "ParseVersion (TrimPrefix (rr_Version r) ''go'')")
      case (Inl e)
      then show ?thesis using True ParseVersion_error[OF Inl]
        by (simp add: convert_one_def)
    next
      case (Inr v)
      then show ?thesis using True Cons
        by (simp add: convert_one_def split: option.splits)
    qed
  qed
qed

lemma convertLoop_eq:
  "convertLoop rt rs rls =
     (case those (map (\<lambda>(r, f). convert_one r f) (kept_files rt rs)) of
        None \<Rightarrow> Inl ErrVersionSyntax
      | Some xs \<Rightarrow> Inr (rls @ xs))"
proof (induction rs arbitrary: rls)
  case Nil
  then show ?case by (simp add: kept_files_def)
next
  case (Cons r rs)
  have k: "kept_files rt (r # rs) =
      map (Pair r) (filter (targetRelease rt) (rr_Files r)) @ kept_files rt rs"
    by (simp add: kept_files_def)
  show ?case
    by (simp add: k convertFiles_eq Cons those_append comp_def split: option.splits)
qed

lemma mset_insert_less: "mset (insert_less lt x xs) = add_mset x (mset xs)"
  by (induction xs) auto

lemma mset_sort_Slice: "mset (sort_Slice lt xs) = mset xs"
  by (induction xs) (auto simp: sort_Slice_def mset_insert_less)

lemma convertReleases_eq:
  "convertReleases rt rs =
     (case those (map (\<lambda>(r, f). convert_one r f) (kept_files rt rs)) of
        None \<Rightarrow> Inl ErrVersionSyntax
      | Some xs \<Rightarrow> Inr (sort_Slice release_less xs))"
  by (simp add: convertReleases_def convertLoop_eq split: option.splits)

lemma those_None_iff: "those xs = None \<longleftrightarrow> None \<in> set xs"
  by (induction xs) (auto split: option.splits)

lemma those_Some_map: "those xs = Some ys \<Longrightarrow> xs = map Some ys"
  by (induction xs arbitrary: ys) (auto split: option.splits)

lemma kept_files_iff:
  "(r, f) \<in> set (kept_files rt rs) \<longleftrightarrow> r \<in> set rs \<and> f \<in> set (rr_Files r) \<and> targetRelease rt f"
  by (auto simp: kept_files_def)

lemma targetRelease_iff:
  "targetRelease rt f \<longleftrightarrow>
     f_OS f = GOOS rt \<and> f_Kind f = ''archive'' \<and>
     f_Arch f = (if GOARCH rt = ''arm'' then ''armv6l'' else GOARCH rt)"
  by (auto simp: targetRelease_def Let_def)

text \<open>
  Claim C6. When \<open>convertReleases\<close> succeeds, the catalog holds exactly one entry for
  each file of the listing that matches the target (the operating system, the
  architecture with \<^verbatim>\<open>arm\<close> read as \<^verbatim>\<open>armv6l\<close>, and the kind \<^verbatim>\<open>archive\<close>) and
  nothing else, so every other file is excluded; and when the version text of a record
  with a matching file does not parse, the whole conversion returns the syntax error and
  no catalog.
\<close>

theorem convertReleases_filters_and_aborts:
  "(convertReleases rt rs = Inr rls \<longrightarrow>
      mset (map Some rls) = mset (map (\<lambda>(r, f). convert_one r f) (kept_files rt rs)) \<and>
      (\<forall>x \<in> set rls. \<exists>r \<in> set rs. \<exists>f \<in> set (rr_Files r).
          f_OS f = GOOS rt \<and> f_Kind f = ''archive'' \<and>
          f_Arch f = (if GOARCH rt = ''arm'' then ''armv6l'' else GOARCH rt) \<and>
          convert_one r f = Some x)) \<and>
   (r \<in> set rs \<and> f \<in> set (rr_Files r) \<and> targetRelease rt f \<and>
      ParseVersion (TrimPrefix (rr_Version r) ''go'') = Inl e \<longrightarrow>
      convertReleases rt rs = Inl ErrVersionSyntax)"
proof (intro conjI impI)
  assume a: "convertReleases rt rs = Inr rls"
  then obtain xs where xs: "those (map (\<lambda>(r, f). convert_one r f) (kept_files rt rs)) = Some xs"
    and rls: "rls = sort_Slice release_less xs"
    by (auto simp: convertReleases_eq split: option.splits)
  from those_Some_map[OF xs]
  have m: "map (\<lambda>(r, f). convert_one r f) (kept_files rt rs) = map Some xs" .
  have "mset rls = mset xs" by (simp add: rls mset_sort_Slice)
  then have "mset (map Some rls) = mset (map Some xs)" by (metis mset_map)
  with m show "mset (map Some rls) = mset (map (\<lambda>(r, f). convert_one r f) (kept_files rt rs))"
    by simp
  show "\<forall>x \<in> set rls. \<exists>r \<in> set rs. \<exists>f \<in> set (rr_Files r).
          f_OS f = GOOS rt \<and> f_Kind f = ''archive'' \<and>
          f_Arch f = (if GOARCH rt = ''arm'' then ''armv6l'' else GOARCH rt) \<and>
          convert_one r f = Some x"
  proof
    fix x assume "x \<in> set rls"
    then have "x \<in> set xs" using \<open>mset rls = mset xs\<close> by (metis set_mset_mset)
    then have "Some x \<in> set (map (\<lambda>(r, f). convert_one r f) (kept_files rt rs))"
      by (simp add: m)
    then obtain r f where "(r, f) \<in> set (kept_files rt rs)" "convert_one r f = Some x"
      by auto
    then show "\<exists>r \<in> set rs. \<exists>f \<in> set (rr_Files r).
          f_OS f = GOOS rt \<and> f_Kind f = ''archive'' \<and>
          f_Arch f = (if GOARCH rt = ''arm'' then ''armv6l'' else GOARCH rt) \<and>
          convert_one r f = Some x"
      unfolding kept_files_iff targetRelease_iff by blast
  qed
next
  assume b: "r \<in> set rs \<and> f \<in> set (rr_Files r) \<and> targetRelease rt f \<and>
      ParseVersion (TrimPrefix (rr_Version r) ''go'') = Inl e"
  then have "(r, f) \<in> set (kept_files rt rs)" by (simp add: kept_files_iff)
  moreover from b have "convert_one r f = None" by (simp add: convert_one_def)
  ultimately have "None \<in> set (map (\<lambda>(r, f). convert_one r f) (kept_files rt rs))"
    by force
  then have "those (map (\<lambda>(r, f). convert_one r f) (kept_files rt rs)) = None"
    by (simp add: those_None_iff)
  then show "convertReleases rt rs = Inl ErrVersionSyntax"
    by (simp add: convertReleases_eq)
qed

lemma convert_sample: "convertReleases linux_amd64 sample_listing = Inr (releases sample_env)"
  by (simp add: catalog_eval listed_parse)

theorem convertReleases_filters_and_aborts_witness:
  "convertReleases linux_amd64 sample_listing = Inr (releases sample_env) \<and>
   length (concat (map rr_Files sample_listing)) = 24 \<and>
   length (releases sample_env) = 8 \<and>
   (\<exists>r \<in> set sample_listing. \<exists>f \<in> set (rr_Files r).
       f_OS f = ''linux'' \<and> f_Kind f = ''archive'' \<and> f_Arch f = ''amd64'' \<and>
       convert_one r f = Some (last (releases sample_env))) \<and>
   targetRelease linux_amd64 (last (rr_Files (listed ''go1.x'' True))) \<and>
   ParseVersion (TrimPrefix ''go1.x'' ''go'') = Inl ErrVersionSyntax \<and>
   convertReleases linux_amd64 [listed ''go1.16'' True, listed ''go1.x'' True] =
     Inl ErrVersionSyntax"
proof -
  let ?bad = "listed ''go1.x'' True"
  let ?f = "last (rr_Files ?bad)"
  have t: "targetRelease linux_amd64 ?f"
    by (simp add: listed_def targetRelease_def linux_amd64_def)
  have p: "ParseVersion (TrimPrefix (rr_Version ?bad) ''go'') = Inl ErrVersionSyntax"
    by (simp add: listed_def version_eval)
  have m: "?bad \<in> set [listed ''go1.16'' True, ?bad] \<and> ?f \<in> set (rr_Files ?bad)"
    by (simp add: listed_def)
  have n: "length (concat (map rr_Files sample_listing)) = 24"
    by (simp add: sample_listing_def listed_def)
  have l: "length (releases sample_env) = 8" by (simp add: sample_env_releases)
  have g: "GOOS linux_amd64 = ''linux''" "GOARCH linux_amd64 = ''amd64''"
    by (simp_all add: linux_amd64_def)
  from convertReleases_filters_and_aborts
         [of linux_amd64 sample_listing "releases sample_env" ?bad ?f ErrVersionSyntax]
       convert_sample
  have a: "\<forall>x \<in> set (releases sample_env). \<exists>r \<in> set sample_listing. \<exists>f \<in> set (rr_Files r).
       f_OS f = ''linux'' \<and> f_Kind f = ''archive'' \<and> f_Arch f = ''amd64'' \<and>
       convert_one r f = Some x"
    by (simp add: g)
  from convertReleases_filters_and_aborts
         [of linux_amd64 "[listed ''go1.16'' True, ?bad]" "[]" ?bad ?f ErrVersionSyntax]
       t p m
  have b: "convertReleases linux_amd64 [listed ''go1.16'' True, ?bad] = Inl ErrVersionSyntax"
    by blast
  from p have p': "ParseVersion (TrimPrefix ''go1.x'' ''go'') = Inl ErrVersionSyntax"
    by (simp add: listed_def)
  have "last (releases sample_env) \<in> set (releases sample_env)"
    by (simp add: sample_env_releases)
  with a have a': "\<exists>r \<in> set sample_listing. \<exists>f \<in> set (rr_Files r).
       f_OS f = ''linux'' \<and> f_Kind f = ''archive'' \<and> f_Arch f = ''amd64'' \<and>
       convert_one r f = Some (last (releases sample_env))"
    by blast
  from convert_sample n l a' t p' b show ?thesis by blast
qed

subsection \<open>Looking a release up\<close>







end
